theory Spec2Isabelle
  imports Complex_Main
begin

section \<open>Strings and numbers of the host language\<close>

text \<open>
  \<open>Date.now()\<close> is the number of milliseconds since the epoch: a natural number whose
  template-literal rendering \<open>`${timestamp}`\<close> is its decimal numeral.
\<close>

definition digit_char :: "nat \<Rightarrow> char" where
  "digit_char d = ''0123456789'' ! d"

fun show_nat :: "nat \<Rightarrow> string" where
  "show_nat n = (if n < 10 then [digit_char n] else show_nat (n div 10) @ [digit_char (n mod 10)])"

declare show_nat.simps [simp del]

text \<open>
  A JavaScript string where its characters matter one by one (file names, paths, header
  values): the list of its UTF-16 code units. \<open>lit\<close> is a string of characters below
  256 as such a list.
\<close>

type_synonym jsstring = "nat list"

definition lit :: "string \<Rightarrow> jsstring" where
  "lit s = map of_char s"

text \<open>The character class \<open>\d\<close> of a JavaScript regular expression: \<open>0\<close> to \<open>9\<close>.\<close>

definition is_digit :: "nat \<Rightarrow> bool" where
  "is_digit c = (48 \<le> c \<and> c \<le> 57)"

section \<open>Stored files (src/unnamed/part_000)\<close>

text \<open>
  The file system, keyed by the path that \<open>path.join(UPLOADS_DIR, filename)\<close> gives:
  at a path there is nothing, a regular file with its bytes, or a directory. The
  function \<open>path_join\<close>, a parameter of the handlers below, is the library's
  \<open>filename => path.join(UPLOADS_DIR, filename)\<close>; it takes \<open>.\<close> to the uploads directory
  itself and \<open>..\<close> to its parent.
\<close>

datatype node = File string | Directory

type_synonym filesystem = "jsstring \<rightharpoonup> node"

datatype fs_error = ENOENT | EISDIR | EACCES | EPERM | EBUSY

text \<open>
  An uploaded file as multer hands it over: \<open>originalname\<close> is the name of the multipart
  header decoded as latin1, one character per byte.
\<close>

record upload_file =
  originalname :: string
  mimetype :: string
  bytes :: string

text \<open>
  The \<open>filename\<close> callback of \<open>multer.diskStorage\<close> (lines 39-44). The conversion
  \<open>Buffer.from(file.originalname, 'latin1').toString('utf8')\<close> is a library function and is
  the parameter \<open>utf8\<close>: it reads the bytes as UTF-8 and so gives code units of any size.
  \<open>timestamp\<close> is the value of \<open>Date.now()\<close> at the call.
\<close>

definition storage_filename :: "(string \<Rightarrow> jsstring) \<Rightarrow> nat \<Rightarrow> upload_file \<Rightarrow> jsstring" where
  "storage_filename utf8 timestamp file =
     (let originalName = utf8 (originalname file)
      in lit (show_nat timestamp) @ lit ''-'' @ originalName)"

text \<open>
  Disk storage opens \<open>destination/filename\<close> for writing and writes the uploaded stream
  to it: a regular file that is there is replaced, a directory there makes the open
  fail.
\<close>

definition disk_store ::
    "(jsstring \<Rightarrow> jsstring) \<Rightarrow> (string \<Rightarrow> jsstring) \<Rightarrow> nat \<Rightarrow> upload_file \<Rightarrow> filesystem
       \<Rightarrow> fs_error + filesystem" where
  "disk_store path_join utf8 timestamp file fs =
     (let filePath = path_join (storage_filename utf8 timestamp file)
      in case fs filePath of
           Some Directory \<Rightarrow> Inl EISDIR
         | _ \<Rightarrow> Inr (fs(filePath \<mapsto> File (bytes file))))"

text \<open>
  \<open>filename.replace(/^\d+-/, '')\<close> (line 92). The pattern is anchored at the start of the
  string; \<open>\d+\<close> is greedy and backtracks: the matcher tries the longest run of digits
  first, then each shorter non-empty run, and needs a hyphen right after the run. The
  first attempt that succeeds is the match, and \<open>replace\<close> without the \<open>g\<close> flag removes
  that match only. \<open>match_timestamp\<close> returns the number of digits matched.
\<close>

definition match_timestamp :: "jsstring \<Rightarrow> nat option" where
  "match_timestamp s =
     (let m = length (takeWhile is_digit s)
      in find (\<lambda>k. k < length s \<and> s ! k = 45) (rev [1..<Suc m]))"

definition strip_timestamp :: "jsstring \<Rightarrow> jsstring" where
  "strip_timestamp s = (case match_timestamp s of None \<Rightarrow> s | Some k \<Rightarrow> drop (Suc k) s)"

text \<open>
  \<open>res.setHeader\<close> accepts a header value only when every code unit of it is a tab or
  lies in \<open>0x20-0x7e\<close> or \<open>0x80-0xff\<close>; on any other it throws \<open>ERR_INVALID_CHAR\<close>.
\<close>

definition valid_header_unit :: "nat \<Rightarrow> bool" where
  "valid_header_unit c = (c = 9 \<or> (32 \<le> c \<and> c \<le> 126) \<or> (128 \<le> c \<and> c \<le> 255))"

definition valid_header_value :: "jsstring \<Rightarrow> bool" where
  "valid_header_value v = list_all valid_header_unit v"

text \<open>
  \<open>res.sendFile\<close> sends a regular file. It sends nothing for a directory, and with the
  default options nothing for a path whose last segment starts with a dot.
\<close>

definition last_segment :: "jsstring \<Rightarrow> jsstring" where
  "last_segment p = rev (takeWhile (\<lambda>c. c \<noteq> 47) (rev p))"

definition is_dotfile :: "jsstring \<Rightarrow> bool" where
  "is_dotfile p = (case last_segment p of [] \<Rightarrow> False | c # cs \<Rightarrow> c = 46)"

text \<open>
  The answers of \<open>GET /api/download/:filename\<close>: status 404 with \<open>{error: 'File not
  found'}\<close>; status 500, when an exception leaves the handler; the header set and no
  file sent by \<open>res.sendFile\<close>; the file sent with the \<open>Content-Disposition\<close> header.
\<close>

datatype download_response =
  NotFound
  | ServerError
  | NotSent
  | SendFile (disposition: jsstring) (body: string)

text \<open>\<open>GET /api/download/:filename\<close> (lines 83-96).\<close>

definition api_download :: "(jsstring \<Rightarrow> jsstring) \<Rightarrow> filesystem \<Rightarrow> jsstring \<Rightarrow> download_response" where
  "api_download path_join fs filename =
     (let filePath = path_join filename
      in case fs filePath of
           None \<Rightarrow> NotFound
         | Some entry \<Rightarrow>
             (let originalName = strip_timestamp filename;
                  header = lit ''attachment; filename=\"'' @ originalName @ lit ''\"''
              in if \<not> valid_header_value header then ServerError
                 else (case entry of
                         Directory \<Rightarrow> NotSent
                       | File data \<Rightarrow>
                           if is_dotfile filePath then NotSent else SendFile header data)))"

text \<open>
  \<open>fs.unlinkSync\<close> removes a regular file. It throws \<open>ENOENT\<close> when nothing is at the
  path and \<open>EISDIR\<close> for a directory, and it throws what the operating system answers
  when that refuses the removal (no permission, a busy file); \<open>refused\<close> gives that
  answer for a path, \<open>None\<close> when the removal is allowed.
\<close>

definition unlinkSync ::
    "(jsstring \<Rightarrow> fs_error option) \<Rightarrow> filesystem \<Rightarrow> jsstring \<Rightarrow> fs_error + filesystem" where
  "unlinkSync refused fs filePath =
     (case fs filePath of
        None \<Rightarrow> Inl ENOENT
      | Some Directory \<Rightarrow> Inl EISDIR
      | Some (File data) \<Rightarrow>
          (case refused filePath of Some e \<Rightarrow> Inl e | None \<Rightarrow> Inr (fs(filePath := None))))"

datatype delete_response =
  DeleteSuccess
  | DeleteFailure fs_error

text \<open>
  \<open>DELETE /api/files/:filename\<close> (lines 98-111): \<open>DeleteSuccess\<close> is the body
  \<open>{success: true}\<close>, \<open>DeleteFailure\<close> the status 500 with \<open>{success: false, error}\<close> of
  the \<open>catch\<close> branch. \<open>fs.existsSync\<close> is true for a file and for a directory.
\<close>

definition api_delete ::
    "(jsstring \<Rightarrow> jsstring) \<Rightarrow> (jsstring \<Rightarrow> fs_error option) \<Rightarrow> filesystem \<Rightarrow> jsstring
       \<Rightarrow> delete_response \<times> filesystem" where
  "api_delete path_join refused fs filename =
     (let filePath = path_join filename
      in case (if fs filePath \<noteq> None then unlinkSync refused fs filePath else Inr fs) of
           Inr fs' \<Rightarrow> (DeleteSuccess, fs')
         | Inl e \<Rightarrow> (DeleteFailure e, fs))"

section \<open>Values exchanged over the socket\<close>

text \<open>
  A JavaScript value as the message handlers see it: what \<open>JSON.parse\<close> returns, plus
  \<open>undefined\<close>, which reading a missing property gives. An object is the list of its own
  properties in the object's property order, and \<open>JSON.parse\<close> gives every key once. One
  character of a \<open>JStr\<close> stands for one code unit of the string; the handlers never
  look inside a string, they only compare it with the literals \<open>'message'\<close> and
  \<open>'clear'\<close>.
\<close>

datatype jsval =
  JUndefined
  | JNull
  | JBool bool
  | JNum real
  | JStr string
  | JArr "jsval list"
  | JObj "(string \<times> jsval) list"

datatype js_error = TypeError | SyntaxError | SystemError

text \<open>
  \<open>value.k\<close> for a property name \<open>k\<close> that no prototype defines and that is not an
  index (the handlers read \<open>type\<close> and \<open>message\<close> only): reading a property of
  \<open>null\<close> or \<open>undefined\<close> throws a \<open>TypeError\<close>, an object gives its own property or
  \<open>undefined\<close>, every other value gives \<open>undefined\<close>.
\<close>

fun get_prop :: "jsval \<Rightarrow> string \<Rightarrow> js_error + jsval" where
  "get_prop JUndefined k = Inl TypeError"
| "get_prop JNull k = Inl TypeError"
| "get_prop (JObj kvs) k = Inr (case map_of kvs k of None \<Rightarrow> JUndefined | Some v \<Rightarrow> v)"
| "get_prop (JBool b) k = Inr JUndefined"
| "get_prop (JNum n) k = Inr JUndefined"
| "get_prop (JStr s) k = Inr JUndefined"
| "get_prop (JArr xs) k = Inr JUndefined"

text \<open>
  The own enumerable properties that an object spread \<open>{...v}\<close> copies: the properties
  of an object, the indexed elements of an array, the indexed one-character strings of
  a string, and nothing for \<open>undefined\<close>, \<open>null\<close>, a boolean or a number.
\<close>

definition index_props :: "jsval list \<Rightarrow> (string \<times> jsval) list" where
  "index_props xs = map (\<lambda>(i, v). (show_nat i, v)) (enumerate 0 xs)"

fun spread :: "jsval \<Rightarrow> (string \<times> jsval) list" where
  "spread (JObj kvs) = kvs"
| "spread (JArr xs) = index_props xs"
| "spread (JStr s) = index_props (map (\<lambda>c. JStr [c]) s)"
| "spread JUndefined = []"
| "spread JNull = []"
| "spread (JBool b) = []"
| "spread (JNum n) = []"

text \<open>
  Defining the property \<open>k\<close> in an object literal after a spread: a property that is
  there keeps its place and takes the new value, a new one goes last.
\<close>

fun set_prop :: "string \<Rightarrow> jsval \<Rightarrow> (string \<times> jsval) list \<Rightarrow> (string \<times> jsval) list" where
  "set_prop k v [] = [(k, v)]"
| "set_prop k v ((k', v') # kvs) =
     (if k' = k then (k, v) # kvs else (k', v') # set_prop k v kvs)"

section \<open>The message relay (src/unnamed/part_000 and src/server.js)\<close>

datatype ready_state = CONNECTING | OPEN | CLOSING | CLOSED

text \<open>
  A socket of \<open>wss.clients\<close>: its \<open>readyState\<close> and the frames sent to it so far, each
  recorded as the value that was given to \<open>JSON.stringify\<close>.
\<close>

record client =
  readyState :: ready_state
  sent :: "jsval list"

text \<open>
  The state the handlers share: the variable \<open>messages\<close> (whatever \<open>JSON.parse\<close> made of
  the messages file, an array in every run that started from a missing or unreadable
  file), the sockets of \<open>wss.clients\<close> in the order they connected, and the writes to
  \<open>MESSAGES_FILE\<close> issued so far, each recorded as the value whose JSON text was handed
  to \<open>fs.writeFile\<close>. The write itself is asynchronous and its failure is only logged.
\<close>

record hub =
  messages :: jsval
  clients :: "client list"
  saved :: "jsval list"

text \<open>
  The messages at startup (part_000 lines 20-26, server.js lines 10-16). \<open>file\<close> is the
  outcome of \<open>fs.readFileSync(MESSAGES_FILE, 'utf8')\<close>; \<open>JSON_parse\<close> is the library's
  parser, \<open>None\<close> when it throws.
\<close>

datatype fs_read_error = ReadENOENT | ReadEACCES | ReadEISDIR

definition load_messages :: "(string \<Rightarrow> jsval option) \<Rightarrow> fs_read_error + string \<Rightarrow> jsval" where
  "load_messages JSON_parse file =
     (case file of
        Inl err \<Rightarrow> JArr []
      | Inr data \<Rightarrow> (case JSON_parse data of None \<Rightarrow> JArr [] | Some v \<Rightarrow> v))"

definition startup :: "(string \<Rightarrow> jsval option) \<Rightarrow> fs_read_error + string \<Rightarrow> hub" where
  "startup JSON_parse file = \<lparr>messages = load_messages JSON_parse file, clients = [], saved = []\<rparr>"

definition saveMessages :: "hub \<Rightarrow> hub" where
  "saveMessages s = s\<lparr>saved := saved s @ [messages s]\<rparr>"

definition send :: "jsval \<Rightarrow> client \<Rightarrow> client" where
  "send frame c = c\<lparr>sent := sent c @ [frame]\<rparr>"

text \<open>\<open>wss.clients.forEach(client => { if (client.readyState === client.OPEN) client.send(...) })\<close>\<close>

definition broadcast :: "jsval \<Rightarrow> client list \<Rightarrow> client list" where
  "broadcast frame cs = map (\<lambda>c. if readyState c = OPEN then send frame c else c) cs"

definition init_frame :: "jsval \<Rightarrow> jsval" where
  "init_frame msgs = JObj [(''type'', JStr ''init''), (''messages'', msgs)]"

definition message_frame :: "jsval \<Rightarrow> jsval" where
  "message_frame message = JObj [(''type'', JStr ''message''), (''message'', message)]"

definition clear_frame :: jsval where
  "clear_frame = JObj [(''type'', JStr ''clear'')]"

text \<open>
  \<open>wss.on('connection', ws => { ws.send(JSON.stringify({ type: 'init', messages })); ... })\<close>.
  The library has put the new socket, open and with nothing sent, into \<open>wss.clients\<close>
  before it calls the handler.
\<close>

definition on_connection :: "hub \<Rightarrow> hub" where
  "on_connection s =
     s\<lparr>clients := clients s @ [send (init_frame (messages s)) \<lparr>readyState = OPEN, sent = []\<rparr>]\<rparr>"

text \<open>
  \<open>messages.unshift(message)\<close>: only an array has the method, on any other value the
  call throws a \<open>TypeError\<close>.
\<close>

fun unshift :: "jsval \<Rightarrow> jsval \<Rightarrow> js_error + jsval list" where
  "unshift message (JArr xs) = Inr (message # xs)"
| "unshift message JUndefined = Inl TypeError"
| "unshift message JNull = Inl TypeError"
| "unshift message (JBool b) = Inl TypeError"
| "unshift message (JNum n) = Inl TypeError"
| "unshift message (JStr s) = Inl TypeError"
| "unshift message (JObj kvs) = Inl TypeError"

text \<open>
  What a handler call did: it returned, or an exception left it. Nothing catches such
  an exception (the socket library calls the listener outside any \<open>try\<close>, and neither
  file handles \<open>uncaughtException\<close>), so the process ends with it. The second component
  of the result is the state at the moment the call ended.
\<close>

datatype outcome = Returned | Thrown js_error

text \<open>
  \<open>const message = { ...payload.message, timestamp: new Date().toISOString() }\<close>
  (part_000 lines 162-165); \<open>isoDate\<close> is the string \<open>new Date().toISOString()\<close> gave.
\<close>

definition stamped :: "jsval \<Rightarrow> string \<Rightarrow> jsval" where
  "stamped m isoDate = JObj (set_prop ''timestamp'' (JStr isoDate) (spread m))"

text \<open>The \<open>ws.on('message', data => ...)\<close> handler of part_000 (lines 153-192).\<close>

definition on_message ::
    "(string \<Rightarrow> jsval option) \<Rightarrow> string \<Rightarrow> string \<Rightarrow> hub \<Rightarrow> outcome \<times> hub" where
  "on_message JSON_parse isoDate data s =
     (case JSON_parse data of
        None \<Rightarrow> (Returned, s)
      | Some payload \<Rightarrow>
          (case get_prop payload ''type'' of
             Inl e \<Rightarrow> (Thrown e, s)
           | Inr ty \<Rightarrow>
               if ty = JStr ''message'' then
                 (case get_prop payload ''message'' of
                    Inl e \<Rightarrow> (Thrown e, s)
                  | Inr m \<Rightarrow>
                      (let message = stamped m isoDate in
                       case unshift message (messages s) of
                         Inl e \<Rightarrow> (Thrown e, s)
                       | Inr ms \<Rightarrow>
                           (let ms' = (if length ms > 1000 then take 1000 ms else ms);
                                s1 = saveMessages (s\<lparr>messages := JArr ms'\<rparr>)
                            in (Returned,
                                s1\<lparr>clients := broadcast (message_frame message) (clients s1)\<rparr>))))
               else if ty = JStr ''clear'' then
                 (let s1 = saveMessages (s\<lparr>messages := JArr []\<rparr>)
                  in (Returned, s1\<lparr>clients := broadcast clear_frame (clients s1)\<rparr>))
               else (Returned, s)))"

text \<open>
  The handler of src/server.js (lines 53-75): the message is stored as it came, and the
  list is cut with \<open>messages.pop()\<close>, which removes the last element.
\<close>

definition on_message_srv ::
    "(string \<Rightarrow> jsval option) \<Rightarrow> string \<Rightarrow> hub \<Rightarrow> outcome \<times> hub" where
  "on_message_srv JSON_parse data s =
     (case JSON_parse data of
        None \<Rightarrow> (Returned, s)
      | Some payload \<Rightarrow>
          (case get_prop payload ''type'' of
             Inl e \<Rightarrow> (Thrown e, s)
           | Inr ty \<Rightarrow>
               if ty = JStr ''message'' then
                 (case get_prop payload ''message'' of
                    Inl e \<Rightarrow> (Thrown e, s)
                  | Inr message \<Rightarrow>
                      (case unshift message (messages s) of
                         Inl e \<Rightarrow> (Thrown e, s)
                       | Inr ms \<Rightarrow>
                           (let ms' = (if length ms > 1000 then butlast ms else ms);
                                s1 = saveMessages (s\<lparr>messages := JArr ms'\<rparr>)
                            in (Returned,
                                s1\<lparr>clients := broadcast (message_frame message) (clients s1)\<rparr>))))
               else if ty = JStr ''clear'' then
                 (let s1 = saveMessages (s\<lparr>messages := JArr []\<rparr>)
                  in (Returned, s1\<lparr>clients := broadcast clear_frame (clients s1)\<rparr>))
               else (Returned, s)))"

text \<open>
  What the handlers read from a frame: the value of \<open>payload.type\<close> (\<open>None\<close> when
  \<open>JSON.parse\<close> throws, \<open>Some (Inl TypeError)\<close> when the payload is \<open>null\<close>), and the
  value of \<open>payload.message\<close>.
\<close>

definition frame_type :: "(string \<Rightarrow> jsval option) \<Rightarrow> string \<Rightarrow> (js_error + jsval) option" where
  "frame_type JSON_parse data = map_option (\<lambda>payload. get_prop payload ''type'') (JSON_parse data)"

definition frame_body :: "(string \<Rightarrow> jsval option) \<Rightarrow> string \<Rightarrow> jsval" where
  "frame_body JSON_parse data =
     (case JSON_parse data of
        None \<Rightarrow> JUndefined
      | Some payload \<Rightarrow> (case get_prop payload ''message'' of Inl e \<Rightarrow> JUndefined | Inr m \<Rightarrow> m))"

text \<open>
  A run of the relay. An event is a new connection, a frame arriving on some socket
  (with the time string the handler of part_000 reads while it handles the frame), or a
  socket changing its \<open>readyState\<close>. A run goes on with the state a handler left, also
  after an exception; the program ends at the first exception, so what it does is a
  run up to there.
\<close>

datatype event =
  Connection
  | Frame string string
  | ReadyState nat ready_state

fun step :: "(string \<Rightarrow> jsval option) \<Rightarrow> event \<Rightarrow> hub \<Rightarrow> hub" where
  "step JSON_parse Connection s = on_connection s"
| "step JSON_parse (Frame data isoDate) s = snd (on_message JSON_parse isoDate data s)"
| "step JSON_parse (ReadyState i r) s =
     (if i < length (clients s)
      then s\<lparr>clients := (clients s)[i := (clients s ! i)\<lparr>readyState := r\<rparr>]\<rparr>
      else s)"

fun step_srv :: "(string \<Rightarrow> jsval option) \<Rightarrow> event \<Rightarrow> hub \<Rightarrow> hub" where
  "step_srv JSON_parse Connection s = on_connection s"
| "step_srv JSON_parse (Frame data isoDate) s = snd (on_message_srv JSON_parse data s)"
| "step_srv JSON_parse (ReadyState i r) s =
     (if i < length (clients s)
      then s\<lparr>clients := (clients s)[i := (clients s ! i)\<lparr>readyState := r\<rparr>]\<rparr>
      else s)"

definition run :: "(string \<Rightarrow> jsval option) \<Rightarrow> event list \<Rightarrow> hub \<Rightarrow> hub" where
  "run JSON_parse evs s = fold (step JSON_parse) evs s"

definition run_srv :: "(string \<Rightarrow> jsval option) \<Rightarrow> event list \<Rightarrow> hub \<Rightarrow> hub" where
  "run_srv JSON_parse evs s = fold (step_srv JSON_parse) evs s"

text \<open>The frames of a run, in the order they arrived.\<close>

fun frames_of :: "event list \<Rightarrow> (string \<times> string) list" where
  "frames_of [] = []"
| "frames_of (Frame data isoDate # evs) = (data, isoDate) # frames_of evs"
| "frames_of (Connection # evs) = frames_of evs"
| "frames_of (ReadyState i r # evs) = frames_of evs"

definition is_init :: "jsval \<Rightarrow> bool" where
  "is_init frame = (get_prop frame ''type'' = Inr (JStr ''init''))"

text \<open>
  The socket at position \<open>i\<close> of \<open>wss.clients\<close> was sent the frame \<open>f\<close> first, and no
  \<open>init\<close> frame after it.
\<close>

definition init_first :: "nat \<Rightarrow> jsval \<Rightarrow> hub \<Rightarrow> bool" where
  "init_first i f s \<longleftrightarrow> i < length (clients s)
     \<and> (\<exists>rest. sent (clients s ! i) = f # rest \<and> list_all (\<lambda>fr. \<not> is_init fr) rest)"

section \<open>Host metrics (src/server/index.js and src/server.js)\<close>

text \<open>
  The payload of \<open>GET /api/system-info\<close>. Numbers are real numbers here (the rounding of
  floating point, \<open>NaN\<close> and the infinities are not represented); the field \<open>error\<close> is
  \<open>None\<close> when the object has no such property.
\<close>

record system_info =
  ipAddress :: string
  cpuUsage :: real
  memoryUsage :: real
  diskUsage :: real
  temperature :: real
  uptime :: string
  timestamp :: int
  error :: "string option"

text \<open>The module variables \<open>systemInfoCache\<close> (\<open>null\<close> is \<open>None\<close>) and \<open>lastUpdate\<close>.\<close>

record sys_state =
  systemInfoCache :: "system_info option"
  lastUpdate :: int

definition CACHE_DURATION :: int where
  "CACHE_DURATION = 2000"

definition initial_sys_state :: sys_state where
  "initial_sys_state = \<lparr>systemInfoCache = None, lastUpdate = 0\<rparr>"

text \<open>
  What the \<open>try\<close> block of \<open>getSystemInfo\<close> has in its local variables when it reaches
  the object literal: \<open>ipAddress\<close>, \<open>cpuUsage\<close>, \<open>memoryUsage\<close>, \<open>diskUsage\<close>,
  \<open>temperature\<close>, and the uptime in whole seconds (its fraction does not change any
  \<open>Math.floor\<close> of \<open>formatUptime\<close>). The block computes them from the answers of the
  \<open>systeminformation\<close> and \<open>os\<close> libraries in floating point and changes no variable of
  the module before that point.
\<close>

record readings =
  q_ipAddress :: string
  q_cpuUsage :: real
  q_memoryUsage :: real
  q_diskUsage :: real
  q_temperature :: real
  q_uptime :: nat

text \<open>
  What one call of \<open>getSystemInfo\<close> reads from outside: \<open>Date.now()\<close>; the outcome of the
  \<open>try\<close> block up to the object literal, either the local variables or the exception
  thrown on the way; and what the \<open>catch\<close> block reads: the address \<open>getLocalIP()\<close>
  resolves to (it catches its own errors), the four results of \<open>Math.random()\<close> in the
  order of the calls, and the outcome of the call \<open>os.uptime()\<close> that the \<open>catch\<close> block
  of src/server.js makes: the whole seconds, or the exception it throws. Calls are
  handled one after the other.
\<close>

record call_env =
  now :: int
  queries :: "js_error + readings"
  fallback_ip :: string
  random_cpu :: real
  random_mem :: real
  random_disk :: real
  random_temp :: real
  os_uptime :: "js_error + nat"

text \<open>\<open>Math.round(x * 10) / 10\<close>; \<open>Math.round\<close> rounds a half upwards, as \<open>round\<close> does.\<close>

definition round1 :: "real \<Rightarrow> real" where
  "round1 x = of_int (round (x * 10)) / 10"

text \<open>\<open>String.prototype.trim\<close> on 8-bit characters: white space and line terminators.\<close>

definition is_space :: "char \<Rightarrow> bool" where
  "is_space c = ((of_char c :: nat) \<in> {9, 10, 11, 12, 13, 32, 160})"

definition trim :: "string \<Rightarrow> string" where
  "trim s = rev (dropWhile is_space (rev (dropWhile is_space s)))"

text \<open>\<open>formatUptime\<close> (index.js lines 36-47, server.js lines 118-129).\<close>

definition formatUptime :: "nat \<Rightarrow> string" where
  "formatUptime seconds =
     (let days = seconds div 86400;
          hours = (seconds mod 86400) div 3600;
          minutes = (seconds mod 3600) div 60;
          result = '''';
          result = (if days > 0 then result @ show_nat days @ ''d '' else result);
          result = (if hours > 0 then result @ show_nat hours @ ''h '' else result);
          result = result @ show_nat minutes @ ''m''
      in trim result)"

text \<open>
  \<open>getSystemInfo\<close> of src/server/index.js (lines 67-134). The result is the value the
  promise resolves to (\<open>Inr\<close>) or rejects with (\<open>Inl\<close>), and the module variables
  afterwards.
\<close>

definition getSystemInfo :: "call_env \<Rightarrow> sys_state \<Rightarrow> (js_error + system_info) \<times> sys_state" where
  "getSystemInfo env st =
     (if systemInfoCache st \<noteq> None \<and> now env - lastUpdate st < CACHE_DURATION
      then (Inr (the (systemInfoCache st)), st)
      else
          (case queries env of
             Inr q \<Rightarrow>
               (let info = \<lparr> ipAddress = q_ipAddress q,
                             cpuUsage = round1 (q_cpuUsage q),
                             memoryUsage = round1 (q_memoryUsage q),
                             diskUsage = round1 (q_diskUsage q),
                             temperature = round1 (q_temperature q),
                             uptime = formatUptime (q_uptime q),
                             timestamp = now env,
                             error = None \<rparr>
                in (Inr info, st\<lparr>systemInfoCache := Some info, lastUpdate := now env\<rparr>))
           | Inl e \<Rightarrow>
               (Inr \<lparr> ipAddress = fallback_ip env,
                       cpuUsage = random_cpu env * 100,
                       memoryUsage = 35 + random_mem env * 20,
                       diskUsage = 42 + random_disk env * 10,
                       temperature = 45 + random_temp env * 15,
                       uptime = ''0d 0h 0m'',
                       timestamp = now env,
                       error = Some ''Could not fetch real system data'' \<rparr>,
                st)))"

text \<open>
  \<open>getSystemInfo\<close> of src/server.js (lines 156-227): the \<open>catch\<close> block rounds the
  simulated values, formats \<open>os.uptime()\<close>, and stores what it returns in the cache.
  When \<open>os.uptime()\<close> throws there, inside the object literal, the exception leaves
  \<open>getSystemInfo\<close> before anything is stored: the promise rejects.
\<close>

definition getSystemInfo_srv :: "call_env \<Rightarrow> sys_state \<Rightarrow> (js_error + system_info) \<times> sys_state" where
  "getSystemInfo_srv env st =
     (if systemInfoCache st \<noteq> None \<and> now env - lastUpdate st < CACHE_DURATION
      then (Inr (the (systemInfoCache st)), st)
      else
          (case queries env of
             Inr q \<Rightarrow>
               (let info = \<lparr> ipAddress = q_ipAddress q,
                             cpuUsage = round1 (q_cpuUsage q),
                             memoryUsage = round1 (q_memoryUsage q),
                             diskUsage = round1 (q_diskUsage q),
                             temperature = round1 (q_temperature q),
                             uptime = formatUptime (q_uptime q),
                             timestamp = now env,
                             error = None \<rparr>
                in (Inr info, st\<lparr>systemInfoCache := Some info, lastUpdate := now env\<rparr>))
           | Inl e \<Rightarrow>
               (case os_uptime env of
                  Inl e' \<Rightarrow> (Inl e', st)
                | Inr seconds \<Rightarrow>
                    (let fallbackData = \<lparr> ipAddress = fallback_ip env,
                             cpuUsage = round1 (random_cpu env * 50 + 10),
                             memoryUsage = round1 (35 + random_mem env * 20),
                             diskUsage = round1 (42 + random_disk env * 10),
                             temperature = round1 (45 + random_temp env * 15),
                             uptime = formatUptime seconds,
                             timestamp = now env,
                             error = Some ''Using simulated data - some system metrics unavailable'' \<rparr>
                     in (Inr fallbackData,
                         st\<lparr>systemInfoCache := Some fallbackData, lastUpdate := now env\<rparr>)))))"

text \<open>
  \<open>app.get('/api/system-info', ...)\<close>: the JSON payload, or status 500 with
  \<open>{error: 'Failed to get system information'}\<close> when \<open>getSystemInfo\<close> rejects.
\<close>

datatype info_response =
  InfoJson system_info
  | InfoError500

definition api_system_info :: "call_env \<Rightarrow> sys_state \<Rightarrow> info_response \<times> sys_state" where
  "api_system_info env st =
     (case getSystemInfo env st of
        (Inr systemInfo, st') \<Rightarrow> (InfoJson systemInfo, st')
      | (Inl e, st') \<Rightarrow> (InfoError500, st'))"

definition api_system_info_srv :: "call_env \<Rightarrow> sys_state \<Rightarrow> info_response \<times> sys_state" where
  "api_system_info_srv env st =
     (case getSystemInfo_srv env st of
        (Inr systemInfo, st') \<Rightarrow> (InfoJson systemInfo, st')
      | (Inl e, st') \<Rightarrow> (InfoError500, st'))"


section \<open>Verification\<close>

subsection \<open>Decimal numerals and the timestamp pattern\<close>

lemma digit_char_codes: "\<forall>d<10. (of_char (digit_char d) :: nat) = 48 + d"
  unfolding digit_char_def
  by (simp add: numeral_eq_Suc All_less_Suc del: of_nat_Suc)

lemma of_char_digit_char: "d < 10 \<Longrightarrow> (of_char (digit_char d) :: nat) = 48 + d"
  using digit_char_codes by blast

lemma show_nat_small: "n < 10 \<Longrightarrow> show_nat n = [digit_char n]"
  by (subst show_nat.simps) simp

lemma show_nat_big: "\<not> n < 10 \<Longrightarrow> show_nat n = show_nat (n div 10) @ [digit_char (n mod 10)]"
  by (subst show_nat.simps) simp

lemma show_nat_digits: "\<forall>c\<in>set (lit (show_nat n)). is_digit c"
proof (induction n rule: show_nat.induct)
  case (1 n)
  show ?case
  proof (cases "n < 10")
    case True
    then show ?thesis by (simp add: show_nat_small lit_def is_digit_def of_char_digit_char)
  next
    case False
    with 1 show ?thesis by (simp add: show_nat_big lit_def is_digit_def of_char_digit_char)
  qed
qed

lemma show_nat_nonempty: "lit (show_nat n) \<noteq> []"
  by (subst show_nat.simps) (simp add: lit_def)

lemma takeWhile_stored:
  "takeWhile is_digit (lit (show_nat t) @ 45 # name) = lit (show_nat t)"
  using show_nat_digits [of t] by (simp add: is_digit_def)

lemma match_stored:
  "match_timestamp (lit (show_nat t) @ 45 # name) = Some (length (lit (show_nat t)))"
proof -
  obtain m where m: "length (lit (show_nat t)) = Suc m"
    using show_nat_nonempty [of t] by (cases "lit (show_nat t)") auto
  have "rev [1..<Suc (Suc m)] = Suc m # rev [1..<Suc m]" by simp
  then show ?thesis
    unfolding match_timestamp_def takeWhile_stored Let_def m
    by (simp add: nth_append m del: upt_Suc)
qed

lemma strip_stored: "strip_timestamp (lit (show_nat t) @ 45 # name) = name"
  by (simp add: strip_timestamp_def match_stored)

lemma lit_hyphen: "lit ''-'' = [45]"
  by (simp add: lit_def)

text \<open>
  Removing the prefix matched by \<open>/^\d+-/\<close> from a stored filename gives back the name
  the upload decoded, whatever that name is, also when it starts with digits and a
  hyphen itself.
\<close>

lemma strip_storage_filename:
  "strip_timestamp (storage_filename utf8 ts file) = utf8 (originalname file)"
  by (simp add: storage_filename_def lit_hyphen strip_stored)

lemma show_nat_example: "show_nat 1700000000000 = ''1700000000000''"
  by (simp add: show_nat.simps digit_char_def)

subsection \<open>Upload, download and delete\<close>

text \<open>
  Claim C2 fails for a file whose name has a character above U+00FF. The upload
  decodes the name as UTF-8 (line 42) and stores the file under it; the download
  recovers that name and puts it into the \<open>Content-Disposition\<close> header, where
  \<open>res.setHeader\<close> refuses it: the exception leaves the handler, and the request for
  the file just uploaded is answered with status 500 instead of the file. The file here
  has the name of the three bytes \<open>E6 97 A5\<close>, one character U+65E5, and \<open>.txt\<close>.
\<close>

theorem download_rejects_decoded_name:
  "storage_filename
       (\<lambda>s. if s = [CHR 0xE6, CHR 0x97, CHR 0xA5, CHR ''.'', CHR ''t'', CHR ''x'', CHR ''t'']
             then [26085, 46, 116, 120, 116] else lit s)
       1700000000000
       \<lparr>originalname = [CHR 0xE6, CHR 0x97, CHR 0xA5, CHR ''.'', CHR ''t'', CHR ''x'', CHR ''t''],
        mimetype = ''text/plain'', bytes = ''abc''\<rparr>
     = lit ''1700000000000-'' @ [26085, 46, 116, 120, 116]
   \<and> disk_store (\<lambda>n. lit ''/srv/uploads/'' @ n)
       (\<lambda>s. if s = [CHR 0xE6, CHR 0x97, CHR 0xA5, CHR ''.'', CHR ''t'', CHR ''x'', CHR ''t'']
             then [26085, 46, 116, 120, 116] else lit s)
       1700000000000
       \<lparr>originalname = [CHR 0xE6, CHR 0x97, CHR 0xA5, CHR ''.'', CHR ''t'', CHR ''x'', CHR ''t''],
        mimetype = ''text/plain'', bytes = ''abc''\<rparr>
       Map.empty
     = Inr [lit ''/srv/uploads/1700000000000-'' @ [26085, 46, 116, 120, 116] \<mapsto> File ''abc'']
   \<and> api_download (\<lambda>n. lit ''/srv/uploads/'' @ n)
       [lit ''/srv/uploads/1700000000000-'' @ [26085, 46, 116, 120, 116] \<mapsto> File ''abc'']
       (lit ''1700000000000-'' @ [26085, 46, 116, 120, 116])
     = ServerError"
proof -
  let ?u = "\<lambda>s. if s = [CHR 0xE6, CHR 0x97, CHR 0xA5, CHR ''.'', CHR ''t'', CHR ''x'', CHR ''t'']
             then [26085, 46, 116, 120, 116] else lit s"
  let ?f = "\<lparr>originalname = [CHR 0xE6, CHR 0x97, CHR 0xA5, CHR ''.'', CHR ''t'', CHR ''x'', CHR ''t''],
        mimetype = ''text/plain'', bytes = ''abc''\<rparr>"
  have n: "storage_filename ?u 1700000000000 ?f = lit ''1700000000000-'' @ [26085, 46, 116, 120, 116]"
    by (simp add: storage_filename_def show_nat_example lit_def)
  have s: "strip_timestamp (lit ''1700000000000-'' @ [26085, 46, 116, 120, 116]) = [26085, 46, 116, 120, 116]"
    using strip_storage_filename [of ?u 1700000000000 ?f] unfolding n by simp
  have d: "disk_store (\<lambda>n. lit ''/srv/uploads/'' @ n) ?u 1700000000000 ?f Map.empty
     = Inr [lit ''/srv/uploads/1700000000000-'' @ [26085, 46, 116, 120, 116] \<mapsto> File ''abc'']"
    unfolding disk_store_def n by (simp add: lit_def)
  have h: "\<not> valid_header_value (lit ''attachment; filename=\"'' @ [26085, 46, 116, 120, 116] @ lit ''\"'')"
    by (simp add: valid_header_value_def valid_header_unit_def lit_def)
  have a: "api_download (\<lambda>n. lit ''/srv/uploads/'' @ n)
       [lit ''/srv/uploads/1700000000000-'' @ [26085, 46, 116, 120, 116] \<mapsto> File ''abc'']
       (lit ''1700000000000-'' @ [26085, 46, 116, 120, 116])
     = ServerError"
    unfolding api_download_def Let_def s using h by (simp add: lit_def)
  from n d a show ?thesis by blast
qed

text \<open>
  Claim C4 fails: two uploads of the same original name whose \<open>filename\<close> callbacks
  read the same \<open>Date.now()\<close> (a clock of one millisecond resolution, several files of
  one request) get the same stored filename, and the second upload replaces the bytes
  of the first, which is lost. The comment on line 40 gives the timestamp the purpose
  of avoiding such conflicts.
\<close>

theorem storage_filename_collision:
  "\<lparr>originalname = ''a.txt'', mimetype = ''text/plain'', bytes = ''first''\<rparr>
     \<noteq> \<lparr>originalname = ''a.txt'', mimetype = ''text/plain'', bytes = ''second''\<rparr>
   \<and> storage_filename lit 1700000000000
        \<lparr>originalname = ''a.txt'', mimetype = ''text/plain'', bytes = ''first''\<rparr>
     = lit ''1700000000000-a.txt''
   \<and> storage_filename lit 1700000000000
        \<lparr>originalname = ''a.txt'', mimetype = ''text/plain'', bytes = ''second''\<rparr>
     = lit ''1700000000000-a.txt''
   \<and> disk_store (\<lambda>n. lit ''/srv/uploads/'' @ n) lit 1700000000000
        \<lparr>originalname = ''a.txt'', mimetype = ''text/plain'', bytes = ''first''\<rparr>
        Map.empty
     = Inr [lit ''/srv/uploads/1700000000000-a.txt'' \<mapsto> File ''first'']
   \<and> disk_store (\<lambda>n. lit ''/srv/uploads/'' @ n) lit 1700000000000
        \<lparr>originalname = ''a.txt'', mimetype = ''text/plain'', bytes = ''second''\<rparr>
        [lit ''/srv/uploads/1700000000000-a.txt'' \<mapsto> File ''first'']
     = Inr [lit ''/srv/uploads/1700000000000-a.txt'' \<mapsto> File ''second'']"
proof -
  have n: "storage_filename lit 1700000000000 \<lparr>originalname = ''a.txt'', mimetype = m, bytes = b\<rparr>
      = lit ''1700000000000-a.txt''" for m b
    by (simp add: storage_filename_def show_nat_example lit_def)
  have p: "lit ''/srv/uploads/'' @ lit ''1700000000000-a.txt'' = lit ''/srv/uploads/1700000000000-a.txt''"
    by (simp add: lit_def)
  show ?thesis
    unfolding disk_store_def Let_def n p by simp
qed

text \<open>
  Claim C5, as stated, fails: for the name \<open>.\<close> no file of that name is stored, the
  path is the uploads directory itself, \<open>fs.existsSync\<close> is true, \<open>fs.unlinkSync\<close>
  throws and the handler answers with the status 500 of its \<open>catch\<close> branch.
\<close>

theorem delete_of_directory_fails:
  "[lit ''/srv/uploads'' \<mapsto> Directory, lit ''/srv/uploads/1-a.txt'' \<mapsto> File ''abc'']
       (lit ''/srv/uploads'') = Some Directory
   \<and> api_delete (\<lambda>n. if n = lit ''.'' then lit ''/srv/uploads'' else lit ''/srv/uploads/'' @ n)
       (\<lambda>p. None)
       [lit ''/srv/uploads'' \<mapsto> Directory, lit ''/srv/uploads/1-a.txt'' \<mapsto> File ''abc'']
       (lit ''.'')
     = (DeleteFailure EISDIR,
        [lit ''/srv/uploads'' \<mapsto> Directory, lit ''/srv/uploads/1-a.txt'' \<mapsto> File ''abc''])"
  by (simp add: api_delete_def unlinkSync_def lit_def)

text \<open>
  Claim C5, amended. \<open>DELETE /api/files/:filename\<close> answers \<open>{success: true}\<close> and
  leaves every stored file as it was when nothing exists at the path of that name. When
  a regular file is there and its removal is not refused, the file is unlinked, every
  other entry stays, and the answer is the same \<open>{success: true}\<close>. When the path is a
  directory, or the removal is refused, the handler answers with status 500 and
  \<open>{success: false}\<close> and removes nothing.
\<close>

theorem delete_outcomes:
  "(fs (path_join filename) = None
      \<longrightarrow> api_delete path_join refused fs filename = (DeleteSuccess, fs))
   \<and> (fs (path_join filename) = Some (File data) \<and> refused (path_join filename) = None
      \<longrightarrow> api_delete path_join refused fs filename
            = (DeleteSuccess, fs(path_join filename := None)))
   \<and> (fs (path_join filename) = Some Directory
      \<longrightarrow> api_delete path_join refused fs filename = (DeleteFailure EISDIR, fs))
   \<and> (fs (path_join filename) = Some (File data) \<and> refused (path_join filename) = Some e
      \<longrightarrow> api_delete path_join refused fs filename = (DeleteFailure e, fs))"
  by (simp add: api_delete_def unlinkSync_def)

text \<open>
  A name that is not stored, a stored file, the directory itself, and a file whose
  removal the operating system refuses.
\<close>

theorem delete_outcomes_witness:
  "api_delete (\<lambda>n. if n = lit ''.'' then lit ''/srv/uploads'' else lit ''/srv/uploads/'' @ n)
       (\<lambda>p. if p = lit ''/srv/uploads/2-b.txt'' then Some EACCES else None)
       [lit ''/srv/uploads'' \<mapsto> Directory, lit ''/srv/uploads/1-a.txt'' \<mapsto> File ''abc'',
        lit ''/srv/uploads/2-b.txt'' \<mapsto> File ''xyz'']
       (lit ''3-c.txt'')
     = (DeleteSuccess,
        [lit ''/srv/uploads'' \<mapsto> Directory, lit ''/srv/uploads/1-a.txt'' \<mapsto> File ''abc'',
         lit ''/srv/uploads/2-b.txt'' \<mapsto> File ''xyz''])
   \<and> api_delete (\<lambda>n. if n = lit ''.'' then lit ''/srv/uploads'' else lit ''/srv/uploads/'' @ n)
       (\<lambda>p. if p = lit ''/srv/uploads/2-b.txt'' then Some EACCES else None)
       [lit ''/srv/uploads'' \<mapsto> Directory, lit ''/srv/uploads/1-a.txt'' \<mapsto> File ''abc'',
        lit ''/srv/uploads/2-b.txt'' \<mapsto> File ''xyz'']
       (lit ''1-a.txt'')
     = (DeleteSuccess,
        [lit ''/srv/uploads'' \<mapsto> Directory, lit ''/srv/uploads/2-b.txt'' \<mapsto> File ''xyz''])
   \<and> api_delete (\<lambda>n. if n = lit ''.'' then lit ''/srv/uploads'' else lit ''/srv/uploads/'' @ n)
       (\<lambda>p. if p = lit ''/srv/uploads/2-b.txt'' then Some EACCES else None)
       [lit ''/srv/uploads'' \<mapsto> Directory, lit ''/srv/uploads/1-a.txt'' \<mapsto> File ''abc'',
        lit ''/srv/uploads/2-b.txt'' \<mapsto> File ''xyz'']
       (lit ''.'')
     = (DeleteFailure EISDIR,
        [lit ''/srv/uploads'' \<mapsto> Directory, lit ''/srv/uploads/1-a.txt'' \<mapsto> File ''abc'',
         lit ''/srv/uploads/2-b.txt'' \<mapsto> File ''xyz''])
   \<and> api_delete (\<lambda>n. if n = lit ''.'' then lit ''/srv/uploads'' else lit ''/srv/uploads/'' @ n)
       (\<lambda>p. if p = lit ''/srv/uploads/2-b.txt'' then Some EACCES else None)
       [lit ''/srv/uploads'' \<mapsto> Directory, lit ''/srv/uploads/1-a.txt'' \<mapsto> File ''abc'',
        lit ''/srv/uploads/2-b.txt'' \<mapsto> File ''xyz'']
       (lit ''2-b.txt'')
     = (DeleteFailure EACCES,
        [lit ''/srv/uploads'' \<mapsto> Directory, lit ''/srv/uploads/1-a.txt'' \<mapsto> File ''abc'',
         lit ''/srv/uploads/2-b.txt'' \<mapsto> File ''xyz''])"
proof -
  let ?pj = "\<lambda>n. if n = lit ''.'' then lit ''/srv/uploads'' else lit ''/srv/uploads/'' @ n"
  let ?rf = "\<lambda>p. if p = lit ''/srv/uploads/2-b.txt'' then Some EACCES else None"
  let ?fs = "[lit ''/srv/uploads'' \<mapsto> Directory, lit ''/srv/uploads/1-a.txt'' \<mapsto> File ''abc'',
        lit ''/srv/uploads/2-b.txt'' \<mapsto> File ''xyz'']"
  have "api_delete ?pj ?rf ?fs (lit ''3-c.txt'') = (DeleteSuccess, ?fs)"
    using delete_outcomes [of ?fs ?pj "lit ''3-c.txt''" ?rf] by (simp add: lit_def)
  moreover have "api_delete ?pj ?rf ?fs (lit ''1-a.txt'')
      = (DeleteSuccess, [lit ''/srv/uploads'' \<mapsto> Directory, lit ''/srv/uploads/2-b.txt'' \<mapsto> File ''xyz''])"
    using delete_outcomes [of ?fs ?pj "lit ''1-a.txt''" ?rf "''abc''"]
    by (simp add: lit_def fun_upd_twist)
  moreover have "api_delete ?pj ?rf ?fs (lit ''.'') = (DeleteFailure EISDIR, ?fs)"
    using delete_outcomes [of ?fs ?pj "lit ''.''" ?rf] by (simp add: lit_def)
  moreover have "api_delete ?pj ?rf ?fs (lit ''2-b.txt'') = (DeleteFailure EACCES, ?fs)"
    using delete_outcomes [of ?fs ?pj "lit ''2-b.txt''" ?rf "''xyz''" EACCES] by (simp add: lit_def)
  ultimately show ?thesis by blast
qed

subsection \<open>The message relay\<close>

lemma get_prop_message_total:
  "get_prop payload k = Inr v \<Longrightarrow> \<exists>m. get_prop payload k' = Inr m"
  by (cases payload) auto

lemma butlast_cap:
  "length xs \<le> n \<Longrightarrow> (if length (m # xs) > n then butlast (m # xs) else m # xs) = take n (m # xs)"
  by (cases "length xs = n") (simp_all add: butlast_conv_take)

lemma take_append_take: "take n (as @ take n bs) = take n (as @ bs)"
  by (simp add: min_def)

lemma on_message_stores:
  assumes "frame_type P data = Some (Inr (JStr ''message''))" and "messages s = JArr xs"
  shows "messages (snd (on_message P isoDate data s))
           = JArr (take 1000 (stamped (frame_body P data) isoDate # xs))"
proof -
  from assms(1) obtain payload where p: "P data = Some payload"
    and t: "get_prop payload ''type'' = Inr (JStr ''message'')"
    by (auto simp: frame_type_def)
  from get_prop_message_total [OF t] obtain m where m: "get_prop payload ''message'' = Inr m"
    by blast
  have b: "frame_body P data = m" by (simp add: frame_body_def p m)
  show ?thesis
    unfolding on_message_def b
    by (simp add: p t m assms(2) saveMessages_def Let_def)
qed

lemma on_message_srv_stores:
  assumes "frame_type P data = Some (Inr (JStr ''message''))" and "messages s = JArr xs"
    and "length xs \<le> 1000"
  shows "messages (snd (on_message_srv P data s)) = JArr (take 1000 (frame_body P data # xs))"
proof -
  from assms(1) obtain payload where p: "P data = Some payload"
    and t: "get_prop payload ''type'' = Inr (JStr ''message'')"
    by (auto simp: frame_type_def)
  from get_prop_message_total [OF t] obtain m where m: "get_prop payload ''message'' = Inr m"
    by blast
  have b: "frame_body P data = m" by (simp add: frame_body_def p m)
  have c: "(if length (m # xs) > 1000 then butlast (m # xs) else m # xs) = take 1000 (m # xs)"
    using assms(3) by (rule butlast_cap)
  show ?thesis
    unfolding on_message_srv_def b
    using c by (simp add: p t m assms(2) saveMessages_def Let_def)
qed

lemma run_messages:
  assumes "list_all (\<lambda>(data, isoDate). frame_type P data = Some (Inr (JStr ''message''))) (frames_of evs)"
    and "messages s = JArr xs" and "length xs \<le> 1000"
  shows "messages (run P evs s)
     = JArr (take 1000 (rev (map (\<lambda>(data, isoDate). stamped (frame_body P data) isoDate) (frames_of evs)) @ xs))"
  using assms
proof (induction evs arbitrary: s xs)
  case Nil
  then show ?case by (simp add: run_def)
next
  case (Cons e evs)
  show ?case
  proof (cases e)
    case Connection
    with Cons.prems have "list_all (\<lambda>(data, isoDate). frame_type P data = Some (Inr (JStr ''message''))) (frames_of evs)"
      by simp
    from Cons.IH [OF this, of "step P e s" xs] Cons.prems Connection
    show ?thesis by (simp add: run_def on_connection_def)
  next
    case (ReadyState i r)
    with Cons.prems have "list_all (\<lambda>(data, isoDate). frame_type P data = Some (Inr (JStr ''message''))) (frames_of evs)"
      by simp
    from Cons.IH [OF this, of "step P e s" xs] Cons.prems ReadyState
    show ?thesis by (simp add: run_def)
  next
    case (Frame data isoDate)
    let ?m = "stamped (frame_body P data) isoDate"
    from Cons.prems Frame have ty: "frame_type P data = Some (Inr (JStr ''message''))"
      and rest: "list_all (\<lambda>(data, isoDate). frame_type P data = Some (Inr (JStr ''message''))) (frames_of evs)"
      by simp_all
    have m1: "messages (step P e s) = JArr (take 1000 (?m # xs))"
      using on_message_stores [OF ty Cons.prems(2)] Frame by simp
    have "messages (run P evs (step P e s))
       = JArr (take 1000 (rev (map (\<lambda>(data, isoDate). stamped (frame_body P data) isoDate) (frames_of evs))
            @ take 1000 (?m # xs)))"
      by (rule Cons.IH [OF rest m1]) simp
    also have "\<dots> = JArr (take 1000 (rev (map (\<lambda>(data, isoDate). stamped (frame_body P data) isoDate) (frames_of evs))
            @ ?m # xs))"
      by (simp only: take_append_take)
    also have "rev (map (\<lambda>(data, isoDate). stamped (frame_body P data) isoDate) (frames_of evs)) @ ?m # xs
        = rev (map (\<lambda>(data, isoDate). stamped (frame_body P data) isoDate) (frames_of (e # evs))) @ xs"
      using Frame by simp
    finally show ?thesis by (simp only: run_def fold_simps)
  qed
qed

lemma run_srv_messages:
  assumes "list_all (\<lambda>(data, isoDate). frame_type P data = Some (Inr (JStr ''message''))) (frames_of evs)"
    and "messages s = JArr xs" and "length xs \<le> 1000"
  shows "messages (run_srv P evs s)
     = JArr (take 1000 (rev (map (\<lambda>(data, isoDate). frame_body P data) (frames_of evs)) @ xs))"
  using assms
proof (induction evs arbitrary: s xs)
  case Nil
  then show ?case by (simp add: run_srv_def)
next
  case (Cons e evs)
  show ?case
  proof (cases e)
    case Connection
    with Cons.prems have "list_all (\<lambda>(data, isoDate). frame_type P data = Some (Inr (JStr ''message''))) (frames_of evs)"
      by simp
    from Cons.IH [OF this, of "step_srv P e s" xs] Cons.prems Connection
    show ?thesis by (simp add: run_srv_def on_connection_def)
  next
    case (ReadyState i r)
    with Cons.prems have "list_all (\<lambda>(data, isoDate). frame_type P data = Some (Inr (JStr ''message''))) (frames_of evs)"
      by simp
    from Cons.IH [OF this, of "step_srv P e s" xs] Cons.prems ReadyState
    show ?thesis by (simp add: run_srv_def)
  next
    case (Frame data isoDate)
    let ?m = "frame_body P data"
    from Cons.prems Frame have ty: "frame_type P data = Some (Inr (JStr ''message''))"
      and rest: "list_all (\<lambda>(data, isoDate). frame_type P data = Some (Inr (JStr ''message''))) (frames_of evs)"
      by simp_all
    have m1: "messages (step_srv P e s) = JArr (take 1000 (?m # xs))"
      using on_message_srv_stores [OF ty Cons.prems(2) Cons.prems(3)] Frame by simp
    have "messages (run_srv P evs (step_srv P e s))
       = JArr (take 1000 (rev (map (\<lambda>(data, isoDate). frame_body P data) (frames_of evs))
            @ take 1000 (?m # xs)))"
      by (rule Cons.IH [OF rest m1]) simp
    also have "\<dots> = JArr (take 1000 (rev (map (\<lambda>(data, isoDate). frame_body P data) (frames_of evs))
            @ ?m # xs))"
      by (simp only: take_append_take)
    also have "rev (map (\<lambda>(data, isoDate). frame_body P data) (frames_of evs)) @ ?m # xs
        = rev (map (\<lambda>(data, isoDate). frame_body P data) (frames_of (e # evs))) @ xs"
      using Frame by simp
    finally show ?thesis by (simp only: run_srv_def fold_simps)
  qed
qed

lemma take_rev_drop_oldest:
  "length xs = Suc n \<Longrightarrow> take n (rev (map f xs)) = rev (map f (tl xs))"
  by (cases xs) (simp_all add: rev_map [symmetric])

text \<open>
  Claim C1. Start from an empty message list and let frames arrive, each of type
  \<open>"message"\<close> (connections and changes of socket state may come in between). After
  any such run the stored list has at most 1000 entries and is newest first: it is the
  first 1000 entries of the arrived messages in reverse order of arrival, in part_000
  (each message with its time stamp) and in server.js (each message as it came). After
  exactly 1001 frames the list holds the 1000 latest, the newest at the front; only the
  oldest is gone.
\<close>

theorem message_list_capped:
  assumes "messages s = JArr []"
    and "list_all (\<lambda>(data, isoDate). frame_type P data = Some (Inr (JStr ''message''))) (frames_of evs)"
  shows
    "(\<exists>ms. messages (run P evs s) = JArr ms \<and> length ms \<le> 1000
        \<and> ms = take 1000 (rev (map (\<lambda>(data, isoDate). stamped (frame_body P data) isoDate) (frames_of evs))))
     \<and> (\<exists>ms. messages (run_srv P evs s) = JArr ms \<and> length ms \<le> 1000
        \<and> ms = take 1000 (rev (map (\<lambda>(data, isoDate). frame_body P data) (frames_of evs))))
     \<and> (length (frames_of evs) = 1001 \<longrightarrow>
          messages (run P evs s)
            = JArr (rev (map (\<lambda>(data, isoDate). stamped (frame_body P data) isoDate) (tl (frames_of evs))))
        \<and> messages (run_srv P evs s)
            = JArr (rev (map (\<lambda>(data, isoDate). frame_body P data) (tl (frames_of evs))))
        \<and> length (tl (frames_of evs)) = 1000)"
proof -
  have a: "messages (run P evs s)
      = JArr (take 1000 (rev (map (\<lambda>(data, isoDate). stamped (frame_body P data) isoDate) (frames_of evs))))"
    using run_messages [OF assms(2) assms(1)] by simp
  have b: "messages (run_srv P evs s)
      = JArr (take 1000 (rev (map (\<lambda>(data, isoDate). frame_body P data) (frames_of evs))))"
    using run_srv_messages [OF assms(2) assms(1)] by simp
  have c: "length (frames_of evs) = Suc 1000 \<Longrightarrow> take 1000 (rev (map f (frames_of evs))) = rev (map f (tl (frames_of evs)))" for f :: "string \<times> string \<Rightarrow> jsval"
    by (rule take_rev_drop_oldest)
  show ?thesis
    using a b c by simp
qed

lemma frames_of_map_Frame:
  "frames_of (map (\<lambda>i. Frame (g i) t) xs) = map (\<lambda>i. (g i, t)) xs"
  by (induction xs) simp_all

lemma tl_frames_of_upt:
  "tl (frames_of (map (\<lambda>i. Frame (g i) t) [0..<Suc n])) = map (\<lambda>i. (g i, t)) [1..<Suc n]"
  by (simp add: frames_of_map_Frame upt_conv_Cons map_tl [symmetric] del: upt_Suc)

text \<open>
  1001 frames with the texts \<open>0\<close> to \<open>1000\<close>: the texts \<open>1000\<close> down to \<open>1\<close> remain.
\<close>

theorem message_list_capped_witness:
  "messages (run (\<lambda>d. Some (JObj [(''type'', JStr ''message''), (''message'', JObj [(''text'', JStr d)])]))
       (map (\<lambda>i. Frame (show_nat i) ''2025-01-01T00:00:00.000Z'') [0..<Suc 1000])
       \<lparr>messages = JArr [], clients = [], saved = []\<rparr>)
     = JArr (rev (map (\<lambda>i. JObj [(''text'', JStr (show_nat i)), (''timestamp'', JStr ''2025-01-01T00:00:00.000Z'')])
          [1..<Suc 1000]))
   \<and> messages (run_srv (\<lambda>d. Some (JObj [(''type'', JStr ''message''), (''message'', JObj [(''text'', JStr d)])]))
       (map (\<lambda>i. Frame (show_nat i) ''2025-01-01T00:00:00.000Z'') [0..<Suc 1000])
       \<lparr>messages = JArr [], clients = [], saved = []\<rparr>)
     = JArr (rev (map (\<lambda>i. JObj [(''text'', JStr (show_nat i))]) [1..<Suc 1000]))
   \<and> length [1..<Suc 1000] = 1000"
proof -
  let ?P = "\<lambda>d. Some (JObj [(''type'', JStr ''message''), (''message'', JObj [(''text'', JStr d)])])"
  let ?evs = "map (\<lambda>i. Frame (show_nat i) ''2025-01-01T00:00:00.000Z'') [0..<Suc 1000]"
  let ?s = "\<lparr>messages = JArr [], clients = [], saved = []\<rparr>"
  have h1: "messages ?s = JArr []" by simp
  have h2: "list_all (\<lambda>(data, isoDate). frame_type ?P data = Some (Inr (JStr ''message'')))
      (frames_of ?evs)"
    by (simp add: frames_of_map_Frame frame_type_def list_all_iff del: upt_Suc)
  have h3: "length (frames_of ?evs) = 1001"
    by (simp add: frames_of_map_Frame del: upt_Suc)
  from message_list_capped [OF h1 h2] h3
  have "messages (run ?P ?evs ?s)
            = JArr (rev (map (\<lambda>(data, isoDate). stamped (frame_body ?P data) isoDate) (tl (frames_of ?evs))))
        \<and> messages (run_srv ?P ?evs ?s)
            = JArr (rev (map (\<lambda>(data, isoDate). frame_body ?P data) (tl (frames_of ?evs))))"
    by blast
  then show ?thesis
    unfolding tl_frames_of_upt
    by (simp add: frame_body_def stamped_def comp_def del: upt_Suc)
qed

text \<open>
  Claim C6. A frame of type \<open>"clear"\<close> makes the message list empty, issues one write
  of the empty list to the messages file, and sends \<open>{type: "clear"}\<close> to every socket
  of \<open>wss.clients\<close> whose \<open>readyState\<close> is \<open>OPEN\<close>, and to no other; the handler
  returns normally. Both handlers do the same.
\<close>

theorem clear_empties_and_broadcasts:
  assumes "frame_type P data = Some (Inr (JStr ''clear''))"
  shows "fst (on_message P isoDate data s) = Returned
     \<and> messages (snd (on_message P isoDate data s)) = JArr []
     \<and> saved (snd (on_message P isoDate data s)) = saved s @ [JArr []]
     \<and> length (clients (snd (on_message P isoDate data s))) = length (clients s)
     \<and> (\<forall>i < length (clients s).
          readyState (clients (snd (on_message P isoDate data s)) ! i) = readyState (clients s ! i)
          \<and> sent (clients (snd (on_message P isoDate data s)) ! i)
              = (if readyState (clients s ! i) = OPEN
                 then sent (clients s ! i) @ [JObj [(''type'', JStr ''clear'')]]
                 else sent (clients s ! i)))
     \<and> fst (on_message_srv P data s) = Returned
     \<and> messages (snd (on_message_srv P data s)) = JArr []
     \<and> saved (snd (on_message_srv P data s)) = saved s @ [JArr []]
     \<and> length (clients (snd (on_message_srv P data s))) = length (clients s)
     \<and> (\<forall>i < length (clients s).
          readyState (clients (snd (on_message_srv P data s)) ! i) = readyState (clients s ! i)
          \<and> sent (clients (snd (on_message_srv P data s)) ! i)
              = (if readyState (clients s ! i) = OPEN
                 then sent (clients s ! i) @ [JObj [(''type'', JStr ''clear'')]]
                 else sent (clients s ! i)))"
proof -
  from assms obtain payload where p: "P data = Some payload"
    and t: "get_prop payload ''type'' = Inr (JStr ''clear'')"
    by (auto simp: frame_type_def)
  have a: "on_message P isoDate data s
      = (Returned, s\<lparr>messages := JArr [], saved := saved s @ [JArr []],
            clients := broadcast clear_frame (clients s)\<rparr>)"
    by (simp add: on_message_def p t saveMessages_def Let_def)
  have b: "on_message_srv P data s
      = (Returned, s\<lparr>messages := JArr [], saved := saved s @ [JArr []],
            clients := broadcast clear_frame (clients s)\<rparr>)"
    by (simp add: on_message_srv_def p t saveMessages_def Let_def)
  show ?thesis
    unfolding a b by (simp add: broadcast_def send_def clear_frame_def)
qed

text \<open>One open and one closing socket: only the open one gets the frame.\<close>

theorem clear_empties_and_broadcasts_witness:
  "on_message (\<lambda>d. if d = ''{\"type\":\"clear\"}'' then Some (JObj [(''type'', JStr ''clear'')]) else None)
       ''2025-01-01T00:00:00.000Z'' ''{\"type\":\"clear\"}''
       \<lparr>messages = JArr [JObj [(''text'', JStr ''hi'')]],
        clients = [\<lparr>readyState = OPEN, sent = []\<rparr>, \<lparr>readyState = CLOSING, sent = []\<rparr>],
        saved = []\<rparr>
     = (Returned,
        \<lparr>messages = JArr [],
         clients = [\<lparr>readyState = OPEN, sent = [JObj [(''type'', JStr ''clear'')]]\<rparr>,
                    \<lparr>readyState = CLOSING, sent = []\<rparr>],
         saved = [JArr []]\<rparr>)"
proof -
  let ?P = "\<lambda>d. if d = ''{\"type\":\"clear\"}'' then Some (JObj [(''type'', JStr ''clear'')]) else None"
  let ?s = "\<lparr>messages = JArr [JObj [(''text'', JStr ''hi'')]],
        clients = [\<lparr>readyState = OPEN, sent = []\<rparr>, \<lparr>readyState = CLOSING, sent = []\<rparr>],
        saved = []\<rparr>"
  let ?r = "on_message ?P ''2025-01-01T00:00:00.000Z'' ''{\"type\":\"clear\"}'' ?s"
  have h: "frame_type ?P ''{\"type\":\"clear\"}'' = Some (Inr (JStr ''clear''))"
    by (simp add: frame_type_def)
  note c = clear_empties_and_broadcasts [OF h, of "''2025-01-01T00:00:00.000Z''" ?s]
  from c have "fst ?r = Returned" by blast
  moreover from c have "messages (snd ?r) = JArr []" by blast
  moreover from c have "saved (snd ?r) = [JArr []]" by simp
  moreover from c have l: "length (clients (snd ?r)) = 2" by simp
  moreover from c have "clients (snd ?r) ! 0 = \<lparr>readyState = OPEN, sent = [JObj [(''type'', JStr ''clear'')]]\<rparr>"
    by simp
  moreover from c have "clients (snd ?r) ! 1 = \<lparr>readyState = CLOSING, sent = []\<rparr>"
    by simp
  ultimately show ?thesis
    by (cases ?r; cases "snd ?r"; cases "clients (snd ?r)"; cases "tl (clients (snd ?r))") auto
qed

text \<open>
  Frames that are not valid JSON, and frames whose payload is not \<open>null\<close> and whose
  \<open>type\<close> is neither \<open>"message"\<close> nor \<open>"clear"\<close>, are dropped: the handlers return and
  leave the state as it was.
\<close>

lemma non_null_frames_dropped:
  assumes "frame_type P data = None
      \<or> (\<exists>ty. frame_type P data = Some (Inr ty) \<and> ty \<noteq> JStr ''message'' \<and> ty \<noteq> JStr ''clear'')"
  shows "on_message P isoDate data s = (Returned, s) \<and> on_message_srv P data s = (Returned, s)"
  using assms
  by (auto simp: on_message_def on_message_srv_def frame_type_def split: option.splits)

text \<open>
  Claim C8 fails for the frame \<open>null\<close>, which is valid JSON and has no \<open>type\<close>. Both
  handlers read \<open>payload.type\<close> after the \<open>try\<close> around \<open>JSON.parse\<close> (part_000 line 161,
  server.js line 56), so the read throws a \<open>TypeError\<close> that nothing catches: the frame
  is not dropped, the exception leaves the handler and ends the process, and with it
  the message list in memory.
\<close>

theorem null_frame_throws:
  "fst (on_message (\<lambda>d. if d = ''null'' then Some JNull else None)
          ''2025-01-01T00:00:00.000Z'' ''null''
          \<lparr>messages = JArr [JObj [(''text'', JStr ''hi'')]], clients = [], saved = []\<rparr>)
     = Thrown TypeError
   \<and> fst (on_message_srv (\<lambda>d. if d = ''null'' then Some JNull else None) ''null''
          \<lparr>messages = JArr [JObj [(''text'', JStr ''hi'')]], clients = [], saved = []\<rparr>)
     = Thrown TypeError"
  by (simp add: on_message_def on_message_srv_def)

text \<open>
  Claim C10. When the messages file cannot be read, or its contents do not parse, the
  server starts with the empty message list (and with no socket and no write issued):
  nothing of the file is loaded, and the startup code has no other outcome.
\<close>

theorem startup_defaults_to_empty:
  "startup P (Inl err) = \<lparr>messages = JArr [], clients = [], saved = []\<rparr>
   \<and> (P data = None \<longrightarrow> startup P (Inr data) = \<lparr>messages = JArr [], clients = [], saved = []\<rparr>)"
  by (simp add: startup_def load_messages_def)

text \<open>A missing file, and a file cut off in the middle of a JSON text.\<close>

theorem startup_defaults_to_empty_witness:
  "startup (\<lambda>d. if d = ''[]'' then Some (JArr []) else None) (Inl ReadENOENT)
     = \<lparr>messages = JArr [], clients = [], saved = []\<rparr>
   \<and> startup (\<lambda>d. if d = ''[]'' then Some (JArr []) else None) (Inr ''[{\"id\":'')
     = \<lparr>messages = JArr [], clients = [], saved = []\<rparr>"
  using startup_defaults_to_empty [of "\<lambda>d. if d = ''[]'' then Some (JArr []) else None"
      ReadENOENT "''[{\"id\":''"]
  by simp

lemma broadcast_length: "length (broadcast fr cs) = length cs"
  by (simp add: broadcast_def)

lemma broadcast_sent:
  "i < length cs \<Longrightarrow>
     sent (broadcast fr cs ! i) = sent (cs ! i) @ (if readyState (cs ! i) = OPEN then [fr] else [])"
  by (simp add: broadcast_def send_def)

lemma not_init_frames: "\<not> is_init clear_frame" "\<not> is_init (message_frame m)"
  by (simp_all add: is_init_def clear_frame_def message_frame_def)

lemma on_message_clients:
  "clients (snd (on_message P isoDate data s)) = clients s
   \<or> (\<exists>fr. \<not> is_init fr \<and> clients (snd (on_message P isoDate data s)) = broadcast fr (clients s))"
  unfolding on_message_def Let_def saveMessages_def
  using not_init_frames by (auto split: option.splits sum.splits)

lemma on_message_srv_clients:
  "clients (snd (on_message_srv P data s)) = clients s
   \<or> (\<exists>fr. \<not> is_init fr \<and> clients (snd (on_message_srv P data s)) = broadcast fr (clients s))"
  unfolding on_message_srv_def Let_def saveMessages_def
  using not_init_frames by (auto split: option.splits sum.splits)


lemma init_first_clients:
  assumes "init_first i f s"
    and "cs = clients s \<or> (\<exists>fr. \<not> is_init fr \<and> cs = broadcast fr (clients s))"
  shows "init_first i f (s'\<lparr>clients := cs\<rparr>)"
  using assms by (auto simp: init_first_def broadcast_length broadcast_sent)

lemma init_first_step: "init_first i f s \<Longrightarrow> init_first i f (step P e s)"
proof (cases e)
  case Connection
  assume "init_first i f s"
  with Connection show ?thesis by (auto simp: init_first_def on_connection_def nth_append)
next
  case (Frame data isoDate)
  assume a: "init_first i f s"
  from init_first_clients [OF a on_message_clients [of P isoDate data s], of "snd (on_message P isoDate data s)"]
  show ?thesis using Frame by simp
next
  case (ReadyState j r)
  assume "init_first i f s"
  with ReadyState show ?thesis by (auto simp: init_first_def nth_list_update)
qed

lemma init_first_step_srv: "init_first i f s \<Longrightarrow> init_first i f (step_srv P e s)"
proof (cases e)
  case Connection
  assume "init_first i f s"
  with Connection show ?thesis by (auto simp: init_first_def on_connection_def nth_append)
next
  case (Frame data isoDate)
  assume a: "init_first i f s"
  from init_first_clients [OF a on_message_srv_clients [of P data s], of "snd (on_message_srv P data s)"]
  show ?thesis using Frame by simp
next
  case (ReadyState j r)
  assume "init_first i f s"
  with ReadyState show ?thesis by (auto simp: init_first_def nth_list_update)
qed

lemma init_first_run: "init_first i f s \<Longrightarrow> init_first i f (run P evs s)"
  unfolding run_def by (induction evs arbitrary: s) (simp_all add: init_first_step)

lemma init_first_run_srv: "init_first i f s \<Longrightarrow> init_first i f (run_srv P evs s)"
  unfolding run_srv_def by (induction evs arbitrary: s) (simp_all add: init_first_step_srv)

lemma init_first_on_connection:
  "init_first (length (clients s)) (init_frame (messages s)) (on_connection s)"
  by (simp add: init_first_def on_connection_def send_def)

text \<open>
  Claim C9. The connection handler sends the new socket exactly one frame,
  \<open>{type: "init", messages}\<close> with the message list of that moment, and it is the first
  frame the socket gets: whatever happens afterwards, the frames sent to that socket
  are this frame followed by frames that are not \<open>init\<close> frames.
\<close>

theorem connection_sends_init_first:
  "clients (on_connection s)
     = clients s @ [\<lparr>readyState = OPEN,
                     sent = [JObj [(''type'', JStr ''init''), (''messages'', messages s)]]\<rparr>]
   \<and> (\<exists>rest. sent (clients (run P evs (on_connection s)) ! length (clients s))
                = JObj [(''type'', JStr ''init''), (''messages'', messages s)] # rest
          \<and> list_all (\<lambda>fr. \<not> is_init fr) rest)
   \<and> (\<exists>rest. sent (clients (run_srv P evs (on_connection s)) ! length (clients s))
                = JObj [(''type'', JStr ''init''), (''messages'', messages s)] # rest
          \<and> list_all (\<lambda>fr. \<not> is_init fr) rest)"
proof -
  have "clients (on_connection s)
     = clients s @ [\<lparr>readyState = OPEN,
                     sent = [JObj [(''type'', JStr ''init''), (''messages'', messages s)]]\<rparr>]"
    by (simp add: on_connection_def send_def init_frame_def)
  moreover from init_first_run [OF init_first_on_connection, of s P evs]
  have "\<exists>rest. sent (clients (run P evs (on_connection s)) ! length (clients s))
                = JObj [(''type'', JStr ''init''), (''messages'', messages s)] # rest
          \<and> list_all (\<lambda>fr. \<not> is_init fr) rest"
    by (simp add: init_first_def init_frame_def)
  moreover from init_first_run_srv [OF init_first_on_connection, of s P evs]
  have "\<exists>rest. sent (clients (run_srv P evs (on_connection s)) ! length (clients s))
                = JObj [(''type'', JStr ''init''), (''messages'', messages s)] # rest
          \<and> list_all (\<lambda>fr. \<not> is_init fr) rest"
    by (simp add: init_first_def init_frame_def)
  ultimately show ?thesis by blast
qed

subsection \<open>Host metrics\<close>








lemma uptime_example: "formatUptime 93784 = ''1d 2h 3m''"
  by (simp add: formatUptime_def Let_def trim_def is_space_def show_nat_small digit_char_def)



text \<open>
  Claim C7 fails in src/server.js. The \<open>catch\<close> block of \<open>getSystemInfo\<close> calls
  \<open>os.uptime()\<close> again (line 218), one of the queries of the \<open>try\<close> block (line 171).
  When that query is what throws, the exception leaves the \<open>catch\<close> block, the promise
  rejects and the handler answers with its 500 branch, where the claim says the request
  succeeds with simulated values. On the same input src/server/index.js, whose \<open>catch\<close>
  block calls nothing that throws, returns the simulated payload with its \<open>error\<close>
  field.
\<close>

theorem fallback_rethrows:
  "api_system_info_srv
      \<lparr>now = 10000, queries = Inl SystemError,
        fallback_ip = ''127.0.0.1'', random_cpu = 1/2, random_mem = 1/2, random_disk = 1/2,
        random_temp = 1/2, os_uptime = Inl SystemError\<rparr>
      initial_sys_state
    = (InfoError500, initial_sys_state)
   \<and> api_system_info
      \<lparr>now = 10000, queries = Inl SystemError,
        fallback_ip = ''127.0.0.1'', random_cpu = 1/2, random_mem = 1/2, random_disk = 1/2,
        random_temp = 1/2, os_uptime = Inl SystemError\<rparr>
      initial_sys_state
    = (InfoJson
        \<lparr>ipAddress = ''127.0.0.1'', cpuUsage = 50, memoryUsage = 45, diskUsage = 47,
          temperature = 105/2, uptime = ''0d 0h 0m'', timestamp = 10000,
          error = Some ''Could not fetch real system data''\<rparr>,
       initial_sys_state)"
  by (simp add: api_system_info_def api_system_info_srv_def getSystemInfo_def getSystemInfo_srv_def
      initial_sys_state_def CACHE_DURATION_def Let_def round1_def uptime_example)

end
